theory Spec2Isabelle
  imports Main
begin

section \<open>Tokens, grammar tables and symbol records\<close>

text \<open>
  Strings are Isabelle strings: a character stands for one code unit in the range
  0..255, which is the range the regular expressions of the PHP module talk about.
  A token of the external tokenizer carries the label of its token type
  (\<^verbatim>\<open>token.type.label\<close>) and its value (\<^verbatim>\<open>token.value\<close>), which is undefined for
  punctuation; a numeric literal is represented by its text.
\<close>

datatype SymbolKind = Class | Function | Variable

record Token =
  label :: string
  tvalue :: "string option"

text \<open>The grammar option block handed to the \<^verbatim>\<open>Parser\<close> constructor.\<close>

record Grammar =
  grammar_class :: "string list"
  grammar_function :: "string list"
  grammar_modifiers :: "string list"
  grammar_types :: "string list"
  grammar_variables :: "string list"

datatype Category = CFunction | CClass | CModifiers | CVariables | CTypes

text \<open>\<^verbatim>\<open>Param\<close>: the type is optional (an own property or absent).\<close>

record Param =
  p_name :: string
  p_val :: string
  p_type :: "string option"

record ReturnInfo =
  present :: bool
  r_type :: "string option"

text \<open>
  The symbol record (\<^verbatim>\<open>Symbols\<close>, and \<^verbatim>\<open>Tokens\<close> in the renderer): the field
  \<^verbatim>\<open>type\<close> of the source is \<open>kind\<close> here, \<open>None\<close> while it is unset.
\<close>

record Symbols =
  s_name :: string
  kind :: "SymbolKind option"
  params :: "Param list"
  s_return :: ReturnInfo

text \<open>The expectation flags kept on the parser object during one run.\<close>

record Flags =
  expectName :: bool
  expectParameter :: bool
  expectParameterType :: bool
  expectReturnType :: bool
  done_flag :: bool

type_synonym pstate = "Flags \<times> Symbols"

section \<open>Helpers of the parser that the language module calls\<close>

text \<open>
  Modelled from the spec: \<^verbatim>\<open>Grammar.is\<close> (the class is not among the sources) is
  the membership test of a token text in one named grammar category; an undefined
  text belongs to no category.
\<close>

fun category :: "Grammar \<Rightarrow> Category \<Rightarrow> string list" where
  "category g CFunction = grammar_function g"
| "category g CClass = grammar_class g"
| "category g CModifiers = grammar_modifiers g"
| "category g CVariables = grammar_variables g"
| "category g CTypes = grammar_types g"

definition grammar_is :: "Grammar \<Rightarrow> string option \<Rightarrow> Category \<Rightarrow> bool" where
  "grammar_is g v c = (case v of None \<Rightarrow> False | Some t \<Rightarrow> t \<in> set (category g c))"

text \<open>
  Modelled from the spec: the identifier pattern of the PHP grammar,
  \<^verbatim>\<open>([a-zA-Z0-9_$\x7f-\xff]+)\<close>, read as a test of the whole text
  (\<^verbatim>\<open>Parser.matchesIdentifier\<close> is not among the sources), and \<^verbatim>\<open>Parser.isName\<close>:
  the text matches the identifier pattern and is not a reserved word of any grammar
  category.
\<close>

definition isLower :: "char \<Rightarrow> bool" where
  "isLower c = (97 \<le> (of_char c :: nat) \<and> (of_char c :: nat) \<le> 122)"

definition isUpper :: "char \<Rightarrow> bool" where
  "isUpper c = (65 \<le> (of_char c :: nat) \<and> (of_char c :: nat) \<le> 90)"

definition isDigit :: "char \<Rightarrow> bool" where
  "isDigit c = (48 \<le> (of_char c :: nat) \<and> (of_char c :: nat) \<le> 57)"

definition identifierChar :: "char \<Rightarrow> bool" where
  "identifierChar c =
     (isLower c \<or> isUpper c \<or> isDigit c \<or> c = CHR ''_'' \<or> c = CHR ''$''
      \<or> 127 \<le> (of_char c :: nat))"

definition matchesIdentifier :: "string option \<Rightarrow> bool" where
  "matchesIdentifier v =
     (case v of None \<Rightarrow> False | Some t \<Rightarrow> t \<noteq> [] \<and> list_all identifierChar t)"

definition isReserved :: "Grammar \<Rightarrow> string option \<Rightarrow> bool" where
  "isReserved g v =
     list_ex (\<lambda>c. grammar_is g v c) [CFunction, CClass, CModifiers, CVariables, CTypes]"

definition isName :: "Grammar \<Rightarrow> string option \<Rightarrow> bool" where
  "isName g v = (matchesIdentifier v \<and> \<not> isReserved g v)"

text \<open>
  Modelled from the spec: the parameter list of the symbol record
  (\<^verbatim>\<open>Symbols.addParameter\<close>, \<^verbatim>\<open>getParameter\<close>, \<^verbatim>\<open>getLastParameterIndex\<close> are not
  among the sources). A parameter is appended at the end with an empty default value;
  the last parameter is the one most recently added, and there is none in an empty
  list.
\<close>

definition addParameter :: "string \<Rightarrow> string option \<Rightarrow> Symbols \<Rightarrow> Symbols" where
  "addParameter n ty s = s\<lparr>params := params s @ [\<lparr>p_name = n, p_val = [], p_type = ty\<rparr>]\<rparr>"

definition renameLastParameter :: "string \<Rightarrow> Symbols \<Rightarrow> Symbols" where
  "renameLastParameter n s =
     (if params s = [] then s
      else s\<lparr>params := butlast (params s) @ [(last (params s))\<lparr>p_name := n\<rparr>]\<rparr>)"

text \<open>JavaScript truthiness of a token value: defined and not the empty string.\<close>

definition truthy :: "string option \<Rightarrow> bool" where
  "truthy v = (case v of None \<Rightarrow> False | Some t \<Rightarrow> t \<noteq> [])"

definition text_of :: "string option \<Rightarrow> string" where
  "text_of v = (case v of None \<Rightarrow> [] | Some t \<Rightarrow> t)"

section \<open>The PHP language module\<close>

definition php_grammar :: Grammar where
  "php_grammar = \<lparr>
     grammar_class = [''class'', ''trait''],
     grammar_function = [''function''],
     grammar_modifiers =
       [''public'', ''static'', ''protected'', ''private'', ''abstract'', ''final''],
     grammar_types =
       [''self'', ''array'', ''callable'', ''bool'', ''boolean'', ''float'', ''int'',
        ''integer'', ''string'', ''iterable'', ''stdClass''],
     grammar_variables = [''const'']\<rparr>"

text \<open>
  \<^verbatim>\<open>formatNullable\<close>: the test \<^verbatim>\<open>/^\?/\<close> looks at the first character; the
  replacement removes that character. The flag is the configuration value
  \<^verbatim>\<open>phpMixedUnionTypes\<close>.
\<close>

definition nullable :: "string \<Rightarrow> bool" where
  "nullable t = (case t of [] \<Rightarrow> False | c # cs \<Rightarrow> c = CHR ''?'')"

definition formatNullable :: "bool \<Rightarrow> string \<Rightarrow> string" where
  "formatNullable phpMixedUnionTypes t =
     (if nullable t then
        (if phpMixedUnionTypes then ''mixed'' else drop 1 t @ ''|null'')
      else t)"

text \<open>
  \<^verbatim>\<open>isType\<close>: the class expression
  \<^verbatim>\<open>/^[a-zA-Z_\x80-\xff][a-zA-Z0-9_\x80-\xff]*$/\<close> is anchored at both ends.
\<close>

definition classStart :: "char \<Rightarrow> bool" where
  "classStart c = (isLower c \<or> isUpper c \<or> c = CHR ''_'' \<or> 128 \<le> (of_char c :: nat))"

definition classRest :: "char \<Rightarrow> bool" where
  "classRest c = (classStart c \<or> isDigit c)"

definition classExpression :: "string \<Rightarrow> bool" where
  "classExpression t = (case t of [] \<Rightarrow> False | c # cs \<Rightarrow> classStart c \<and> list_all classRest cs)"

definition isType :: "Grammar \<Rightarrow> string \<Rightarrow> bool" where
  "isType g t =
     (let notReserved =
            list_all (\<lambda>item. \<not> grammar_is g (Some t) item)
              [CFunction, CClass, CModifiers, CVariables];
          isTy = grammar_is g (Some t) CTypes
      in notReserved \<and> (isTy \<or> classExpression t))"

text \<open>\<^verbatim>\<open>isVariableName\<close>: the test \<^verbatim>\<open>/^\$/\<close>; the text of an undefined value does not match.\<close>

definition isVariableName :: "string option \<Rightarrow> bool" where
  "isVariableName v = (case v of Some (c # cs) \<Rightarrow> c = CHR ''$'' | _ \<Rightarrow> False)"

definition parseClass :: "Grammar \<Rightarrow> Token \<Rightarrow> pstate \<Rightarrow> pstate" where
  "parseClass g tok st =
     (case st of (f, s) \<Rightarrow>
        if grammar_is g (tvalue tok) CClass then
          (f\<lparr>expectName := True\<rparr>, s\<lparr>kind := Some Class\<rparr>)
        else if expectName f \<and> kind s = Some Class \<and> isName g (tvalue tok) then
          (f\<lparr>expectName := False, done_flag := True\<rparr>, s\<lparr>s_name := text_of (tvalue tok)\<rparr>)
        else (f, s))"

text \<open>
  In \<^verbatim>\<open>parseFunction\<close>, appending to an undefined return type concatenates the
  text \<^verbatim>\<open>undefined\<close>, as JavaScript's \<^verbatim>\<open>+=\<close> does.
\<close>

definition parseFunction :: "Grammar \<Rightarrow> Token \<Rightarrow> pstate \<Rightarrow> pstate" where
  "parseFunction g tok st =
     (case st of (f, s) \<Rightarrow>
        if grammar_is g (tvalue tok) CFunction then
          (f\<lparr>expectName := True\<rparr>, s\<lparr>kind := Some Function\<rparr>)
        else if kind s = Some Function then
          (if label tok = ''['' then
             (f, s\<lparr>s_return := (s_return s)\<lparr>r_type :=
                Some ((case r_type (s_return s) of None \<Rightarrow> ''undefined'' | Some t \<Rightarrow> t) @ ''[]'')\<rparr>\<rparr>)
           else if expectName f \<and> isName g (tvalue tok) then
             (f\<lparr>expectName := False\<rparr>, s\<lparr>s_name := text_of (tvalue tok)\<rparr>)
           else if label tok = '':'' \<and> \<not> expectParameter f then
             (f\<lparr>expectReturnType := True\<rparr>, s)
           else if expectReturnType f \<and> matchesIdentifier (tvalue tok) then
             (f\<lparr>expectReturnType := False\<rparr>,
              s\<lparr>s_return := (s_return s)\<lparr>r_type := tvalue tok\<rparr>\<rparr>)
           else (f, s))
        else (f, s))"

definition parseParameterName :: "Grammar \<Rightarrow> Token \<Rightarrow> pstate \<Rightarrow> pstate" where
  "parseParameterName g tok st =
     (case st of (f, s) \<Rightarrow>
        let notType = \<not> expectParameterType f in
        if expectParameter f \<and> isVariableName (tvalue tok) \<and> notType then
          (f, addParameter (text_of (tvalue tok)) None s)
        else (f, s))"

definition parseParameterType :: "Grammar \<Rightarrow> Token \<Rightarrow> pstate \<Rightarrow> pstate" where
  "parseParameterType g tok st =
     (case st of (f, s) \<Rightarrow>
        let (f1, s1) =
              (if truthy (tvalue tok) \<and> isType g (text_of (tvalue tok)) \<and> expectParameter f then
                 (f\<lparr>expectParameterType := True\<rparr>, addParameter [] (tvalue tok) s)
               else (f, s))
        in if expectParameterType f1 \<and> isVariableName (tvalue tok) then
             (f1, renameLastParameter (text_of (tvalue tok)) s1)
           else (f1, s1))"

definition parseParameters :: "Grammar \<Rightarrow> Token \<Rightarrow> pstate \<Rightarrow> pstate" where
  "parseParameters g tok st =
     (case st of (f, s) \<Rightarrow>
        if kind s = Some Function then
          (let f1 = (if label tok = ''('' then f\<lparr>expectParameter := True\<rparr> else f);
               st2 = parseParameterName g tok (f1, s);
               st3 = parseParameterType g tok st2
           in if label tok = '')'' then ((fst st3)\<lparr>expectParameter := False\<rparr>, snd st3)
              else st3)
        else (f, s))"

definition parseVariable :: "Grammar \<Rightarrow> Token \<Rightarrow> pstate \<Rightarrow> pstate" where
  "parseVariable g tok st =
     (case st of (f, s) \<Rightarrow>
        let s1 = (if kind s = None \<and> isVariableName (tvalue tok) then
                    s\<lparr>s_name := text_of (tvalue tok), kind := Some Variable\<rparr>
                  else s)
        in if kind s1 = None \<and> grammar_is g (tvalue tok) CVariables then
             (f\<lparr>expectName := True\<rparr>, s1\<lparr>kind := Some Variable\<rparr>)
           else if kind s1 = Some Variable \<and> expectName f \<and> truthy (tvalue tok) then
             (f\<lparr>expectName := False\<rparr>, s1\<lparr>s_name := text_of (tvalue tok)\<rparr>)
           else (f, s1))"

section \<open>The parse run\<close>

text \<open>
  Modelled from the spec: the loop of the parser over the token sequence (the
  \<^verbatim>\<open>Parser\<close> class that owns it is not among the sources). A fresh symbol record
  and fresh flags are created per run; the loop stops once \<open>done\<close> is set and no
  parameter list is open; the handlers return nothing, so each token is handed to the
  class, function, parameter and variable handlers in this order. At the end the
  return information is present unless the kind is \<open>Variable\<close>, and every captured
  type goes through the nullable post-processing.
\<close>

definition initFlags :: Flags where
  "initFlags = \<lparr>expectName = False, expectParameter = False, expectParameterType = False,
     expectReturnType = False, done_flag = False\<rparr>"

definition initSymbols :: Symbols where
  "initSymbols = \<lparr>s_name = [], kind = None, params = [],
     s_return = \<lparr>present = True, r_type = None\<rparr>\<rparr>"

definition parseToken :: "Grammar \<Rightarrow> Token \<Rightarrow> pstate \<Rightarrow> pstate" where
  "parseToken g tok st =
     parseVariable g tok (parseParameters g tok (parseFunction g tok (parseClass g tok st)))"

fun parseTokens :: "Grammar \<Rightarrow> Token list \<Rightarrow> pstate \<Rightarrow> pstate" where
  "parseTokens g [] st = st"
| "parseTokens g (tok # toks) st =
     (if done_flag (fst st) \<and> \<not> expectParameter (fst st) then st
      else parseTokens g toks (parseToken g tok st))"

definition finish :: "bool \<Rightarrow> Symbols \<Rightarrow> Symbols" where
  "finish phpMixedUnionTypes s =
     s\<lparr>params := map (\<lambda>p. p\<lparr>p_type := map_option (formatNullable phpMixedUnionTypes) (p_type p)\<rparr>)
                   (params s),
       s_return := \<lparr>present = (kind s \<noteq> Some Variable),
                    r_type = map_option (formatNullable phpMixedUnionTypes) (r_type (s_return s))\<rparr>\<rparr>"

definition getSymbols :: "Grammar \<Rightarrow> bool \<Rightarrow> Token list \<Rightarrow> Symbols" where
  "getSymbols g phpMixedUnionTypes toks =
     finish phpMixedUnionTypes (snd (parseTokens g toks (initFlags, initSymbols)))"

section \<open>The renderer\<close>

text \<open>
  The renderer reads two configuration values (\<^verbatim>\<open>columnSpacing\<close>, a number of
  columns, and \<^verbatim>\<open>defaultReturnTag\<close>) and the comment delimiters of the language
  settings (the \<^verbatim>\<open>Settings\<close> class is not among the sources, so its four strings
  are parameters).
\<close>

record Config =
  columnSpacing :: nat
  defaultReturnTag :: bool

record Settings =
  commentOpen :: string
  separator :: string
  commentClose :: string
  eos :: string

datatype error = TypeError | UnsupportedLanguage string

text \<open>\<^verbatim>\<open>Array(n + 1).join(' ')\<close> is a string of \<open>n\<close> spaces.\<close>

definition spaces :: "nat \<Rightarrow> string" where
  "spaces n = replicate n CHR '' ''"

definition columns :: "Config \<Rightarrow> string" where
  "columns cfg = spaces (columnSpacing cfg)"

text \<open>
  \<^verbatim>\<open>escape\<close>: \<^verbatim>\<open>string.replace('$', '\\$')\<close> with a string pattern rewrites the first
  occurrence only; the replacement is a backslash (code 0x5C) followed by the dollar
  sign.
\<close>

fun escape :: "string \<Rightarrow> string" where
  "escape [] = []"
| "escape (c # cs) = (if c = CHR ''$'' then CHR 0x5C # CHR ''$'' # cs else c # escape cs)"

text \<open>
  A placeholder is kept as a piece of its own, with the value the counter had when it
  was made and its seeded text; \<open>flat\<close> writes it out as \<^verbatim>\<open>${N:text}\<close>. A line
  of the block is a list of pieces, the empty list being the empty line.
\<close>

datatype piece = Txt string | Ph nat string

type_synonym line = "piece list"

fun digit :: "nat \<Rightarrow> char" where
  "digit n = char_of (48 + n)"

fun string_of_nat :: "nat \<Rightarrow> string" where
  "string_of_nat n = (if n < 10 then [digit n] else string_of_nat (n div 10) @ [digit (n mod 10)])"

fun flat :: "piece \<Rightarrow> string" where
  "flat (Txt s) = s"
| "flat (Ph n s) = ''${'' @ string_of_nat n @ '':'' @ s @ ''}''"

definition flatLine :: "line \<Rightarrow> string" where
  "flatLine l = concat (map flat l)"

text \<open>The closure \<^verbatim>\<open>placeholder\<close>: it uses the counter and increments it.\<close>

definition placeholder :: "string \<Rightarrow> nat \<Rightarrow> piece \<times> nat" where
  "placeholder s count = (Ph count s, Suc count)"

text \<open>
  \<^verbatim>\<open>max(prop)\<close> maps every parameter to the length of the property and reduces
  with \<^verbatim>\<open>Math.max\<close>: the length of an absent property is a type error, and so is
  reducing an empty array without an initial value.
\<close>

fun lengths :: "string option list \<Rightarrow> error + nat list" where
  "lengths [] = Inr []"
| "lengths (None # vs) = Inl TypeError"
| "lengths (Some v # vs) = (case lengths vs of Inl e \<Rightarrow> Inl e | Inr ns \<Rightarrow> Inr (length v # ns))"

definition reduceMax :: "nat list \<Rightarrow> error + nat" where
  "reduceMax ns = (case ns of [] \<Rightarrow> Inl TypeError | n # ms \<Rightarrow> Inr (foldl max n ms))"

definition maxProp :: "(Param \<Rightarrow> string option) \<Rightarrow> Param list \<Rightarrow> error + nat" where
  "maxProp prop ps = (case lengths (map prop ps) of Inl e \<Rightarrow> Inl e | Inr ns \<Rightarrow> reduceMax ns)"

text \<open>One round of the loop over the parameters: the row of one parameter.\<close>

definition paramRow :: "Config \<Rightarrow> Param list \<Rightarrow> Param \<Rightarrow> nat \<Rightarrow> error + (line \<times> nat)" where
  "paramRow cfg all p count =
     (let column = columnSpacing cfg in
      case maxProp (\<lambda>q. Some (p_name q)) all of
        Inl e \<Rightarrow> Inl e
      | Inr maxName \<Rightarrow>
          let diff = maxName - length (p_name p);
              pSpace = spaces (column + diff)
          in case (case p_type p of
                     Some t \<Rightarrow> (case maxProp p_type all of
                                  Inl e \<Rightarrow> Inl e
                                | Inr maxType \<Rightarrow> Inr (maxType - length t))
                   | None \<Rightarrow> Inr 1) of
               Inl e \<Rightarrow> Inl e
             | Inr typeDiff \<Rightarrow>
                 let tSpace = spaces (column + typeDiff);
                     cSpace = columns cfg;
                     (ty, count1) = (case p_type p of
                                       Some t \<Rightarrow> placeholder (escape t) count
                                     | None \<Rightarrow> placeholder ''[type]'' count);
                     name = escape (p_name p);
                     (desc, count2) = placeholder (''['' @ name @ '' description]'') count1
                 in Inr ([Txt ''@param'', Txt cSpace, Txt '' '', ty, Txt tSpace, Txt name,
                          Txt pSpace, desc], count2))"

fun paramRows :: "Config \<Rightarrow> Param list \<Rightarrow> Param list \<Rightarrow> line list \<times> nat \<Rightarrow> error + (line list \<times> nat)" where
  "paramRows cfg all [] acc = Inr acc"
| "paramRows cfg all (p # ps) (blockList, count) =
     (case paramRow cfg all p count of
        Inl e \<Rightarrow> Inl e
      | Inr (row, count') \<Rightarrow> paramRows cfg all ps (blockList @ [row], count'))"

definition renderParamTags :: "Config \<Rightarrow> Symbols \<Rightarrow> line list \<times> nat \<Rightarrow> error + (line list \<times> nat)" where
  "renderParamTags cfg tokens acc =
     (case acc of (blockList, count) \<Rightarrow>
        if params tokens \<noteq> [] \<and> kind tokens \<noteq> Some Variable then
          paramRows cfg (params tokens) (params tokens) (blockList @ [[]], count)
        else Inr (blockList, count))"

definition renderReturnTag :: "Config \<Rightarrow> Symbols \<Rightarrow> line list \<times> nat \<Rightarrow> line list \<times> nat" where
  "renderReturnTag cfg tokens acc =
     (case acc of (blockList, count) \<Rightarrow>
        if present (s_return tokens) \<and> defaultReturnTag cfg \<and> kind tokens \<noteq> Some Variable then
          (let ty = (if truthy (r_type (s_return tokens))
                     then escape (text_of (r_type (s_return tokens))) else ''[type]'');
               (ph, count') = placeholder ty count
           in (blockList @ [[], [Txt ''@return'', Txt (columns cfg), ph]], count'))
        else (blockList, count))"

definition renderVarTag :: "Config \<Rightarrow> Symbols \<Rightarrow> line list \<times> nat \<Rightarrow> line list \<times> nat" where
  "renderVarTag cfg tokens acc =
     (case acc of (blockList, count) \<Rightarrow>
        if kind tokens = Some Variable then
          (let (ph, count') = placeholder ''[type]'' count
           in (blockList @ [[], [Txt ''@var'', Txt (columns cfg), ph]], count'))
        else (blockList, count))"

text \<open>
  \<^verbatim>\<open>renderBlock\<close>: the counter is a local variable that starts at 1 in every call.
  \<open>renderLines\<close> is the block list before it is wrapped into the comment.
\<close>

definition renderLines :: "Config \<Rightarrow> Symbols \<Rightarrow> error + (line list \<times> nat)" where
  "renderLines cfg tokens =
     (let count = 1;
          (d, count1) = placeholder (''['' @ escape (s_name tokens) @ '' description]'') count
      in case renderParamTags cfg tokens ([[d]], count1) of
           Inl e \<Rightarrow> Inl e
         | Inr acc \<Rightarrow> Inr (renderVarTag cfg tokens (renderReturnTag cfg tokens acc)))"

fun join :: "string \<Rightarrow> string list \<Rightarrow> string" where
  "join sep [] = []"
| "join sep [x] = x"
| "join sep (x # y # ys) = x @ sep @ join sep (y # ys)"

definition wrap :: "Settings \<Rightarrow> line list \<Rightarrow> string" where
  "wrap st blockList =
     commentOpen st @ eos st @ join (eos st) (map (\<lambda>blockLine. separator st @ flatLine blockLine) blockList)
       @ eos st @ commentClose st"

definition renderBlock :: "Config \<Rightarrow> Settings \<Rightarrow> Symbols \<Rightarrow> error + string" where
  "renderBlock cfg st tokens =
     (case renderLines cfg tokens of
        Inl e \<Rightarrow> Inl e
      | Inr (blockList, count) \<Rightarrow> Inr (wrap st blockList))"

text \<open>The numbers of the placeholders of a block, in the order of emission.\<close>

fun phIndex :: "piece \<Rightarrow> nat list" where
  "phIndex (Txt s) = []"
| "phIndex (Ph n s) = [n]"

definition indices :: "line list \<Rightarrow> nat list" where
  "indices ls = concat (map (\<lambda>l. concat (map phIndex l)) ls)"

section \<open>The language registration surface\<close>

datatype Language = C | Java | PHP | SCSS | TypeScript

definition languageList :: "(string \<times> Language) list" where
  "languageList =
     [(''c'', C), (''java'', Java), (''javascript'', TypeScript), (''php'', PHP),
      (''scss'', SCSS), (''typescript'', TypeScript), (''vue'', TypeScript)]"

definition getParserFromLanguageID :: "string \<Rightarrow> error + Language" where
  "getParserFromLanguageID language =
     (case map_of languageList language of
        None \<Rightarrow> Inl (UnsupportedLanguage language)
      | Some parser \<Rightarrow> Inr parser)"

section \<open>Sample inputs\<close>

text \<open>
  The shapes of the tokens the tokenizer produces: a name carries the label
  \<^verbatim>\<open>name\<close> and its text, a keyword or an operator carries its text as label and as
  value, punctuation carries a label and no value, a number carries the label
  \<^verbatim>\<open>num\<close> and (here) its text.
\<close>

definition nameToken :: "string \<Rightarrow> Token" where
  "nameToken v = \<lparr>label = ''name'', tvalue = Some v\<rparr>"

definition keywordToken :: "string \<Rightarrow> Token" where
  "keywordToken v = \<lparr>label = v, tvalue = Some v\<rparr>"

definition punctuation :: "string \<Rightarrow> Token" where
  "punctuation l = \<lparr>label = l, tvalue = None\<rparr>"

definition numberToken :: "string \<Rightarrow> Token" where
  "numberToken v = \<lparr>label = ''num'', tvalue = Some v\<rparr>"

text \<open>
  The state of a run in which the parameter list of the function \<^verbatim>\<open>foo\<close> has just
  been opened.
\<close>

definition openList :: pstate where
  "openList = (initFlags\<lparr>expectParameter := True\<rparr>,
               initSymbols\<lparr>s_name := ''foo'', kind := Some Function\<rparr>)"

text \<open>The defaults of the extension's configuration and of the comment delimiters.\<close>

definition defaultConfig :: Config where
  "defaultConfig = \<lparr>columnSpacing = 2, defaultReturnTag = True\<rparr>"

definition defaultSettings :: Settings where
  "defaultSettings = \<lparr>commentOpen = ''/**'', separator = '' * '', commentClose = '' */'',
     eos = [CHR 0x0A]\<rparr>"

text \<open>The record of \<^verbatim>\<open>function foo($a, int $b) {\<close>: the first parameter has no type.\<close>

definition mixedParams :: Symbols where
  "mixedParams = \<lparr>s_name = ''foo'', kind = Some Function,
     params = [\<lparr>p_name = ''$a'', p_val = [], p_type = None\<rparr>,
               \<lparr>p_name = ''$b'', p_val = [], p_type = Some ''int''\<rparr>],
     s_return = \<lparr>present = True, r_type = None\<rparr>\<rparr>"

text \<open>A record whose first parameter has a type and whose second has none.\<close>

definition unequalParams :: Symbols where
  "unequalParams = \<lparr>s_name = ''foo'', kind = Some Function,
     params = [\<lparr>p_name = ''$a'', p_val = [], p_type = Some ''int''\<rparr>,
               \<lparr>p_name = ''$longer'', p_val = [], p_type = None\<rparr>],
     s_return = \<lparr>present = True, r_type = None\<rparr>\<rparr>"

text \<open>The record of \<^verbatim>\<open>function foo($arg1, $arg2) {\<close>.\<close>

definition twoArguments :: Symbols where
  "twoArguments = \<lparr>s_name = ''foo'', kind = Some Function,
     params = [\<lparr>p_name = ''$arg1'', p_val = [], p_type = None\<rparr>,
               \<lparr>p_name = ''$arg2'', p_val = [], p_type = None\<rparr>],
     s_return = \<lparr>present = True, r_type = None\<rparr>\<rparr>"

text \<open>The record of the variable variable \<^verbatim>\<open>$$foo = 5;\<close>.\<close>

definition variableVariable :: Symbols where
  "variableVariable = \<lparr>s_name = ''$$foo'', kind = Some Variable, params = [],
     s_return = \<lparr>present = False, r_type = None\<rparr>\<rparr>"

section \<open>Nullable types\<close>

text \<open>
  Claim C6: a type that begins with the sigil \<^verbatim>\<open>?\<close> becomes \<^verbatim>\<open>mixed\<close> when the
  mixed-union-types flag is set, and otherwise loses the sigil and gains the suffix
  \<^verbatim>\<open>|null\<close>; a type that does not begin with the sigil is returned unchanged.
\<close>

theorem formatNullable_cases:
  "formatNullable True (CHR ''?'' # rest) = ''mixed'' \<and>
   formatNullable False (CHR ''?'' # rest) = rest @ ''|null'' \<and>
   ((\<forall>r. t \<noteq> CHR ''?'' # r) \<longrightarrow> formatNullable m t = t)"
  by (cases t) (auto simp: formatNullable_def nullable_def)

theorem formatNullable_cases_witness:
  "(\<forall>r. ''int'' \<noteq> CHR ''?'' # r) \<and> formatNullable False ''int'' = ''int'' \<and>
   formatNullable True ''?int'' = ''mixed'' \<and> formatNullable False ''?int'' = ''int|null''"
  using formatNullable_cases [of "''int''" "''int''" False] by simp

section \<open>Recognising types\<close>

lemma php_reserved_not_type:
  "t \<in> set (grammar_function php_grammar @ grammar_class php_grammar @
             grammar_modifiers php_grammar @ grammar_variables php_grammar)
   \<Longrightarrow> t \<notin> set (grammar_types php_grammar)"
  by (auto simp: php_grammar_def)

text \<open>
  The statement of claim C2 asks for a capitalised first character, so that a lowercase
  identifier outside the built-in types would not be a type. The class expression of
  the source accepts a letter of either case: \<^verbatim>\<open>foo\<close> is a type.
\<close>

theorem isType_lowercase_counterexample:
  "isType php_grammar ''foo'' \<and> ''foo'' \<notin> set (grammar_types php_grammar) \<and>
   isLower (hd ''foo'') \<and> \<not> isUpper (hd ''foo'')"
  by (simp add: isType_def php_grammar_def grammar_is_def classExpression_def classStart_def
       classRest_def isLower_def isUpper_def isDigit_def)

text \<open>
  Claim C2, amended: for the PHP grammar, a text is a type if and only if it is a
  built-in type, or it matches the class expression (a first character that is a letter
  of either case, an underscore or a code unit from 0x80, followed by such characters
  and digits) and is not a reserved word of the function, class, modifier or variable
  category.
\<close>

theorem isType_php:
  "isType php_grammar t =
     (t \<in> set (grammar_types php_grammar) \<or>
      (classExpression t \<and>
       t \<notin> set (grammar_function php_grammar @ grammar_class php_grammar @
                  grammar_modifiers php_grammar @ grammar_variables php_grammar)))"
  using php_reserved_not_type [of t]
  by (auto simp: isType_def grammar_is_def Let_def)

theorem isType_php_witness:
  "isType php_grammar ''int'' \<and> isType php_grammar ''Bar'' \<and> \<not> isType php_grammar ''function''"
  using isType_php [of "''int''"] isType_php [of "''Bar''"] isType_php [of "''function''"]
  by (simp add: php_grammar_def classExpression_def classStart_def classRest_def isLower_def
       isUpper_def isDigit_def)

section \<open>Escaping\<close>

lemma escape_no_dollar: "CHR ''$'' \<notin> set s \<Longrightarrow> escape s = s"
  by (induction s) auto

lemma escape_first_dollar:
  "CHR ''$'' \<notin> set pre \<Longrightarrow>
   escape (pre @ CHR ''$'' # post) = pre @ CHR 0x5C # CHR ''$'' # post"
  by (induction pre) auto

text \<open>
  Claim C8 asks that every dollar sign of the name is escaped in the description line.
  The source replaces the first one only: for the name \<^verbatim>\<open>$$foo\<close> the second dollar
  sign reaches the placeholder text as it is.
\<close>

theorem escape_variable_variable:
  "escape ''$$foo'' = [CHR 0x5C, CHR ''$'', CHR ''$'', CHR ''f'', CHR ''o'', CHR ''o''] \<and>
   renderLines defaultConfig variableVariable =
     Inr ([[Ph 1 (''['' @ [CHR 0x5C] @ ''$$foo description]'')],
           [],
           [Txt ''@var'', Txt ''  '', Ph 2 ''[type]'']], 3)"
  by (simp add: renderLines_def renderParamTags_def renderReturnTag_def renderVarTag_def
       placeholder_def variableVariable_def defaultConfig_def columns_def spaces_def
       numeral_eq_Suc)

section \<open>Rendering the parameter tags\<close>

lemma lengths_None: "None \<in> set vs \<Longrightarrow> lengths vs = Inl TypeError"
  by (induction vs rule: lengths.induct) (auto split: sum.splits)

lemma lengths_Some: "lengths (map (\<lambda>q. Some (f q)) ps) = Inr (map (\<lambda>q. length (f q)) ps)"
  by (induction ps) auto

lemma maxProp_untyped:
  "q \<in> set all \<Longrightarrow> p_type q = None \<Longrightarrow> maxProp p_type all = Inl TypeError"
  by (simp add: maxProp_def lengths_None image_iff rev_bexI)

lemma maxProp_name:
  "all \<noteq> [] \<Longrightarrow> maxProp (\<lambda>q. Some (p_name q)) all
     = Inr (foldl max (length (p_name (hd all))) (map (\<lambda>q. length (p_name q)) (tl all)))"
  by (cases all) (simp_all add: maxProp_def lengths_Some reduceMax_def)

lemma paramRow_typed_fails:
  assumes "q \<in> set all" "p_type q = None" "p_type p \<noteq> None"
  shows "paramRow cfg all p count = Inl TypeError"
proof -
  from assms(1) have ne: "all \<noteq> []" by auto
  from assms(3) obtain t where t: "p_type p = Some t" by auto
  show ?thesis
    by (simp add: paramRow_def Let_def maxProp_name [OF ne] t maxProp_untyped [OF assms(1,2)])
qed

lemma paramRow_untyped_ok:
  assumes "all \<noteq> []" "p_type p = None"
  shows "\<exists>r. paramRow cfg all p count = Inr r"
  by (simp add: paramRow_def Let_def maxProp_name [OF assms(1)] assms(2) placeholder_def)

text \<open>
  The loop renders the untyped parameters it meets first and stops with the type error
  at the first parameter that has a type.
\<close>

lemma paramRows_mixed_fails:
  assumes "q \<in> set all" "p_type q = None"
  shows "p \<in> set ps \<Longrightarrow> p_type p \<noteq> None \<Longrightarrow> paramRows cfg all ps acc = Inl TypeError"
proof (induction ps arbitrary: acc)
  case Nil
  then show ?case by simp
next
  case (Cons a ps)
  obtain blockList count where acc: "acc = (blockList, count)" by (cases acc)
  show ?case
  proof (cases "p_type a")
    case None
    from assms(1) have ne: "all \<noteq> []" by auto
    from paramRow_untyped_ok [OF ne None] obtain row c' where
      r: "paramRow cfg all a count = Inr (row, c')" by fastforce
    from None Cons.prems have "p \<in> set ps" by auto
    with Cons.IH Cons.prems(2) have "paramRows cfg all ps (blockList @ [row], c') = Inl TypeError"
      by blast
    with r acc show ?thesis by simp
  next
    case (Some t)
    then have "paramRow cfg all a count = Inl TypeError"
      using paramRow_typed_fails [OF assms] by simp
    with acc show ?thesis by simp
  qed
qed

lemma renderParamTags_mixed:
  assumes "kind tokens = Some Function"
    and "p \<in> set (params tokens)" and "p_type p \<noteq> None"
    and "q \<in> set (params tokens)" and "p_type q = None"
  shows "renderParamTags cfg tokens acc = Inl TypeError"
proof -
  from assms(2) have ne: "params tokens \<noteq> []" by auto
  show ?thesis
    using paramRows_mixed_fails [OF assms(4,5) assms(2,3)] ne assms(1)
    by (simp add: renderParamTags_def split: prod.splits)
qed

lemma renderBlock_mixed:
  assumes "kind tokens = Some Function"
    and "p \<in> set (params tokens)" and "p_type p \<noteq> None"
    and "q \<in> set (params tokens)" and "p_type q = None"
  shows "renderBlock cfg st tokens = Inl TypeError"
  using renderParamTags_mixed [OF assms]
  by (simp add: renderBlock_def renderLines_def Let_def placeholder_def)

text \<open>
  Claim C10: for a record of kind \<open>Function\<close> whose parameter list holds a parameter
  with a type and a parameter without one, rendering the parameter tags raises the type
  error, and so does rendering the block: no comment string is produced.
\<close>

theorem renderParamTags_mixed_types:
  assumes "kind tokens = Some Function"
    and "p \<in> set (params tokens)" and "p_type p \<noteq> None"
    and "q \<in> set (params tokens)" and "p_type q = None"
  shows "renderParamTags cfg tokens acc = Inl TypeError \<and>
         renderBlock cfg st tokens = Inl TypeError"
  using renderParamTags_mixed [OF assms] renderBlock_mixed [OF assms] by simp

theorem renderParamTags_mixed_types_witness:
  "kind mixedParams = Some Function \<and>
   \<lparr>p_name = ''$b'', p_val = [], p_type = Some ''int''\<rparr> \<in> set (params mixedParams) \<and>
   p_type \<lparr>p_name = ''$b'', p_val = [], p_type = Some ''int''\<rparr> \<noteq> None \<and>
   \<lparr>p_name = ''$a'', p_val = [], p_type = None\<rparr> \<in> set (params mixedParams) \<and>
   p_type \<lparr>p_name = ''$a'', p_val = [], p_type = None\<rparr> = None \<and>
   renderParamTags defaultConfig mixedParams ([], 1) = Inl TypeError \<and>
   renderBlock defaultConfig defaultSettings mixedParams = Inl TypeError"
  using renderParamTags_mixed_types [of mixedParams
      "\<lparr>p_name = ''$b'', p_val = [], p_type = Some ''int''\<rparr>"
      "\<lparr>p_name = ''$a'', p_val = [], p_type = None\<rparr>" defaultConfig "([], 1)" defaultSettings]
  by (simp add: mixedParams_def)

text \<open>
  Claim C4 asks for aligned rows for every function record with parameters. The rows
  are computed for lists in which every parameter has a type or none has; for the list
  below, whose first parameter has a type and whose second has none, the maximum type
  width is taken over an absent type and no row is rendered at all.
\<close>

theorem renderParamTags_unequal_params:
  "renderParamTags defaultConfig unequalParams ([[Ph 1 ''[foo description]'']], 2)
     = Inl TypeError \<and>
   renderBlock defaultConfig defaultSettings unequalParams = Inl TypeError"
proof
  show "renderParamTags defaultConfig unequalParams ([[Ph 1 ''[foo description]'']], 2)
          = Inl TypeError"
    by (rule renderParamTags_mixed
          [where p = "\<lparr>p_name = ''$a'', p_val = [], p_type = Some ''int''\<rparr>"
             and q = "\<lparr>p_name = ''$longer'', p_val = [], p_type = None\<rparr>"])
       (simp_all add: unequalParams_def)
  show "renderBlock defaultConfig defaultSettings unequalParams = Inl TypeError"
    by (rule renderBlock_mixed
          [where p = "\<lparr>p_name = ''$a'', p_val = [], p_type = Some ''int''\<rparr>"
             and q = "\<lparr>p_name = ''$longer'', p_val = [], p_type = None\<rparr>"])
       (simp_all add: unequalParams_def)
qed

section \<open>Resolving a language\<close>

lemma getParserFromLanguageID_registered:
  "getParserFromLanguageID l =
     (if l \<in> {''c'', ''java'', ''javascript'', ''php'', ''scss'', ''typescript'', ''vue''}
      then Inr (the (map_of languageList l)) else Inl (UnsupportedLanguage l))"
  by (simp add: getParserFromLanguageID_def languageList_def)

lemma getParserFromLanguageID_fails:
  "(getParserFromLanguageID l = Inl e) =
     (l \<notin> {''c'', ''java'', ''javascript'', ''php'', ''scss'', ''typescript'', ''vue''}
      \<and> e = UnsupportedLanguage l)"
  by (auto simp: getParserFromLanguageID_def languageList_def)

text \<open>
  Claim C7 holds for the resolution itself (the two lemmas above): the seven registered
  identifiers resolve, every other one fails with the unsupported-language error. It
  also says that this is the only failure a caller can see. The PHP line
  \<^verbatim>\<open>function foo($a, int $b) {\<close> resolves and parses, and rendering its record
  fails with the type error.
\<close>

theorem php_pipeline_type_error:
  "getParserFromLanguageID ''php'' = Inr PHP \<and>
   getParserFromLanguageID ''ruby'' = Inl (UnsupportedLanguage ''ruby'') \<and>
   getSymbols php_grammar False
     [keywordToken ''function'', nameToken ''foo'', punctuation ''('', nameToken ''$a'',
      punctuation '','', nameToken ''int'', nameToken ''$b'', punctuation '')'',
      punctuation ''{''] = mixedParams \<and>
   renderBlock defaultConfig defaultSettings mixedParams = Inl TypeError"
proof -
  have 1: "getParserFromLanguageID ''php'' = Inr PHP"
    by (simp add: getParserFromLanguageID_def languageList_def)
  have 2: "getParserFromLanguageID ''ruby'' = Inl (UnsupportedLanguage ''ruby'')"
    by (simp add: getParserFromLanguageID_def languageList_def)
  have 3: "getSymbols php_grammar False
     [keywordToken ''function'', nameToken ''foo'', punctuation ''('', nameToken ''$a'',
      punctuation '','', nameToken ''int'', nameToken ''$b'', punctuation '')'',
      punctuation ''{''] = mixedParams"
    by code_simp
  have 4: "renderBlock defaultConfig defaultSettings mixedParams = Inl TypeError"
    by (rule renderBlock_mixed
          [where p = "\<lparr>p_name = ''$b'', p_val = [], p_type = Some ''int''\<rparr>"
             and q = "\<lparr>p_name = ''$a'', p_val = [], p_type = None\<rparr>"])
       (simp_all add: mixedParams_def)
  from 1 2 3 4 show ?thesis by blast
qed

section \<open>The kind of the symbol\<close>

lemma kind_addParameter: "kind (addParameter n ty s) = kind s"
  by (simp add: addParameter_def)

lemma kind_renameLastParameter: "kind (renameLastParameter n s) = kind s"
  by (simp add: renameLastParameter_def)

lemma kind_parseClass:
  "kind (snd (parseClass g tok st)) =
     (if grammar_is g (tvalue tok) CClass then Some Class else kind (snd st))"
  by (cases st) (simp add: parseClass_def)

lemma kind_parseFunction:
  "kind (snd (parseFunction g tok st)) =
     (if grammar_is g (tvalue tok) CFunction then Some Function else kind (snd st))"
  by (cases st) (simp add: parseFunction_def)

lemma kind_parseParameterName: "kind (snd (parseParameterName g tok st)) = kind (snd st)"
  by (cases st) (simp add: parseParameterName_def Let_def kind_addParameter)

lemma kind_parseParameterType: "kind (snd (parseParameterType g tok st)) = kind (snd st)"
  by (cases st)
     (simp add: parseParameterType_def Let_def kind_addParameter kind_renameLastParameter
        split: prod.splits)

lemma kind_parseParameters: "kind (snd (parseParameters g tok st)) = kind (snd st)"
  by (cases st)
     (simp add: parseParameters_def Let_def kind_parseParameterName kind_parseParameterType)

lemma kind_parseVariable:
  "kind (snd st) \<noteq> None \<Longrightarrow> kind (snd (parseVariable g tok st)) = kind (snd st)"
  by (cases st) (auto simp: parseVariable_def Let_def)

lemma kind_parseToken:
  assumes "kind (snd st) = Some k"
  shows "kind (snd (parseToken g tok st)) =
     (if grammar_is g (tvalue tok) CFunction then Some Function
      else if grammar_is g (tvalue tok) CClass then Some Class
      else Some k)"
proof -
  let ?st3 = "parseParameters g tok (parseFunction g tok (parseClass g tok st))"
  have k3: "kind (snd ?st3) =
     (if grammar_is g (tvalue tok) CFunction then Some Function
      else if grammar_is g (tvalue tok) CClass then Some Class
      else Some k)"
    using assms by (simp add: kind_parseParameters kind_parseFunction kind_parseClass)
  then have "kind (snd ?st3) \<noteq> None" by simp
  then have "kind (snd (parseVariable g tok ?st3)) = kind (snd ?st3)"
    by (rule kind_parseVariable)
  with k3 show ?thesis by (simp add: parseToken_def)
qed

lemma kind_parseTokens_set:
  "kind (snd st) \<noteq> None \<Longrightarrow> kind (snd (parseTokens g toks st)) \<noteq> None"
proof (induction toks arbitrary: st)
  case Nil
  then show ?case by simp
next
  case (Cons tok toks)
  from Cons.prems obtain k where k: "kind (snd st) = Some k" by auto
  have "kind (snd (parseToken g tok st)) \<noteq> None"
    using kind_parseToken [OF k, of g tok] by simp
  then show ?case using Cons.IH Cons.prems by simp
qed

lemma kind_parseTokens_keep:
  "kind (snd st) = Some k \<Longrightarrow>
   list_all (\<lambda>tok. \<not> grammar_is g (tvalue tok) CFunction \<and>
                    \<not> grammar_is g (tvalue tok) CClass) toks \<Longrightarrow>
   kind (snd (parseTokens g toks st)) = Some k"
proof (induction toks arbitrary: st)
  case Nil
  then show ?case by simp
next
  case (Cons tok toks)
  have "kind (snd (parseToken g tok st)) = Some k"
    using kind_parseToken [OF Cons.prems(1), of g tok] Cons.prems(2) by simp
  then show ?case using Cons.IH Cons.prems by simp
qed

text \<open>
  The statement of claim C9 says that no later token changes a kind once it is set. For
  the closure assignment \<^verbatim>\<open>$foo = function\<close> the kind is \<open>Variable\<close> after the first
  token and \<open>Function\<close> after the third: the function handler assigns the kind at
  its keyword whatever the kind was.
\<close>

theorem kind_reassigned_counterexample:
  "kind (snd (parseTokens php_grammar [nameToken ''$foo''] (initFlags, initSymbols)))
     = Some Variable \<and>
   kind (snd (parseTokens php_grammar
                [nameToken ''$foo'', keywordToken ''='', keywordToken ''function'']
                (initFlags, initSymbols)))
     = Some Function"
  by code_simp

text \<open>
  Claim C9, amended: once the kind is set, a token changes it only if it is a function
  keyword (the kind becomes \<open>Function\<close>) or a class keyword (the kind becomes
  \<open>Class\<close>); the variable handler and the parameter handlers never change a kind
  that is set. So the kind is never unset again, and over a token sequence without
  class and function keywords it stays what it is.
\<close>

theorem kind_changes_only_at_keywords:
  assumes "kind (snd st) = Some k"
  shows "kind (snd (parseToken g tok st)) =
           (if grammar_is g (tvalue tok) CFunction then Some Function
            else if grammar_is g (tvalue tok) CClass then Some Class
            else Some k) \<and>
         kind (snd (parseTokens g toks st)) \<noteq> None \<and>
         (list_all (\<lambda>tok. \<not> grammar_is g (tvalue tok) CFunction \<and>
                          \<not> grammar_is g (tvalue tok) CClass) toks
            \<longrightarrow> kind (snd (parseTokens g toks st)) = Some k)"
  using kind_parseToken [OF assms] kind_parseTokens_set [of st g toks]
    kind_parseTokens_keep [OF assms, of g toks] assms
  by simp

theorem kind_changes_only_at_keywords_witness:
  "kind (snd (initFlags, initSymbols\<lparr>s_name := ''$foo'', kind := Some Variable\<rparr>))
     = Some Variable \<and>
   list_all (\<lambda>tok. \<not> grammar_is php_grammar (tvalue tok) CFunction \<and>
                    \<not> grammar_is php_grammar (tvalue tok) CClass)
     [keywordToken ''='', numberToken ''5'', punctuation '';''] \<and>
   kind (snd (parseToken php_grammar (keywordToken ''function'')
                (initFlags, initSymbols\<lparr>s_name := ''$foo'', kind := Some Variable\<rparr>)))
     = Some Function \<and>
   kind (snd (parseTokens php_grammar [keywordToken ''='', numberToken ''5'', punctuation '';'']
                (initFlags, initSymbols\<lparr>s_name := ''$foo'', kind := Some Variable\<rparr>)))
     = Some Variable"
  using kind_changes_only_at_keywords
    [of "(initFlags, initSymbols\<lparr>s_name := ''$foo'', kind := Some Variable\<rparr>)" Variable
        php_grammar "keywordToken ''function''"
        "[keywordToken ''='', numberToken ''5'', punctuation '';'']"]
  by (simp add: grammar_is_def php_grammar_def keywordToken_def numberToken_def
       punctuation_def)

section \<open>Variables and the return information\<close>

lemma parseToken_modifier:
  assumes "grammar_is php_grammar (tvalue tok) CModifiers"
  shows "parseToken php_grammar tok (initFlags, initSymbols) = (initFlags, initSymbols)"
proof -
  from assms obtain v where v: "tvalue tok = Some v"
    and m: "v \<in> set (grammar_modifiers php_grammar)"
    by (auto simp: grammar_is_def split: option.splits)
  from m have nc: "\<not> grammar_is php_grammar (tvalue tok) CClass"
    and nf: "\<not> grammar_is php_grammar (tvalue tok) CFunction"
    and nv: "\<not> grammar_is php_grammar (tvalue tok) CVariables"
    and nn: "\<not> isVariableName (tvalue tok)"
    by (auto simp: v grammar_is_def php_grammar_def isVariableName_def)
  have 1: "parseClass php_grammar tok (initFlags, initSymbols) = (initFlags, initSymbols)"
    by (simp add: parseClass_def nc initFlags_def)
  have 2: "parseFunction php_grammar tok (initFlags, initSymbols) = (initFlags, initSymbols)"
    by (simp add: parseFunction_def nf initSymbols_def)
  have 3: "parseParameters php_grammar tok (initFlags, initSymbols) = (initFlags, initSymbols)"
    by (simp add: parseParameters_def initSymbols_def)
  have 4: "parseVariable php_grammar tok (initFlags, initSymbols) = (initFlags, initSymbols)"
    by (simp add: parseVariable_def nv nn Let_def initSymbols_def)
  show ?thesis by (simp add: parseToken_def 1 2 3 4)
qed

lemma parseTokens_modifiers:
  "list_all (\<lambda>tok. grammar_is php_grammar (tvalue tok) CModifiers) ms \<Longrightarrow>
   parseTokens php_grammar (ms @ rest) (initFlags, initSymbols)
     = parseTokens php_grammar rest (initFlags, initSymbols)"
proof (induction ms)
  case Nil
  then show ?case by simp
next
  case (Cons m ms)
  have "\<not> done_flag initFlags" by (simp add: initFlags_def)
  with Cons show ?case by (simp add: parseToken_modifier)
qed

lemma parseTokens_variable:
  assumes "isVariableName (Some v)"
  shows "parseTokens php_grammar [nameToken v, punctuation '';''] (initFlags, initSymbols)
     = (initFlags, initSymbols\<lparr>s_name := v, kind := Some Variable\<rparr>)"
proof -
  let ?s = "initSymbols\<lparr>s_name := v, kind := Some Variable\<rparr>"
  from assms obtain cs where v: "v = CHR ''$'' # cs"
    by (auto simp: isVariableName_def split: list.splits)
  have nc: "\<not> grammar_is php_grammar (Some v) CClass"
    and nf: "\<not> grammar_is php_grammar (Some v) CFunction"
    by (auto simp: v grammar_is_def php_grammar_def)
  have 1: "parseClass php_grammar (nameToken v) (initFlags, initSymbols) = (initFlags, initSymbols)"
    by (simp add: parseClass_def nc initFlags_def nameToken_def)
  have 2: "parseFunction php_grammar (nameToken v) (initFlags, initSymbols) = (initFlags, initSymbols)"
    by (simp add: parseFunction_def nf initSymbols_def nameToken_def)
  have 3: "parseParameters php_grammar (nameToken v) (initFlags, initSymbols) = (initFlags, initSymbols)"
    by (simp add: parseParameters_def initSymbols_def)
  have 4: "parseVariable php_grammar (nameToken v) (initFlags, initSymbols) = (initFlags, ?s)"
    using assms
    by (simp add: parseVariable_def Let_def initSymbols_def initFlags_def nameToken_def text_of_def)
  have a: "parseToken php_grammar (nameToken v) (initFlags, initSymbols) = (initFlags, ?s)"
    by (simp add: parseToken_def 1 2 3 4)
  have 5: "parseClass php_grammar (punctuation '';'') (initFlags, ?s) = (initFlags, ?s)"
    by (simp add: parseClass_def grammar_is_def initFlags_def punctuation_def)
  have 6: "parseFunction php_grammar (punctuation '';'') (initFlags, ?s) = (initFlags, ?s)"
    by (simp add: parseFunction_def grammar_is_def punctuation_def)
  have 7: "parseParameters php_grammar (punctuation '';'') (initFlags, ?s) = (initFlags, ?s)"
    by (simp add: parseParameters_def)
  have 8: "parseVariable php_grammar (punctuation '';'') (initFlags, ?s) = (initFlags, ?s)"
    by (simp add: parseVariable_def Let_def initFlags_def punctuation_def isVariableName_def)
  have b: "parseToken php_grammar (punctuation '';'') (initFlags, ?s) = (initFlags, ?s)"
    by (simp add: parseToken_def 5 6 7 8)
  have "\<not> done_flag initFlags" by (simp add: initFlags_def)
  then show ?thesis by (simp add: a b)
qed

lemma present_getSymbols:
  "present (s_return (getSymbols g m toks)) = (kind (getSymbols g m toks) \<noteq> Some Variable)"
  by (simp add: getSymbols_def finish_def)

text \<open>
  Claim C3: the record a parse run returns has its return information present when the
  kind is \<open>Class\<close> or \<open>Function\<close> and absent when the kind is \<open>Variable\<close>; and a
  bare PHP variable declaration (any modifiers, the variable, a semicolon) yields the
  kind \<open>Variable\<close>, the name of the variable, no parameters and no return
  information.
\<close>

theorem getSymbols_return_present:
  "(kind (getSymbols g m toks) = Some Class \<or> kind (getSymbols g m toks) = Some Function
      \<longrightarrow> present (s_return (getSymbols g m toks))) \<and>
   (kind (getSymbols g m toks) = Some Variable
      \<longrightarrow> \<not> present (s_return (getSymbols g m toks))) \<and>
   (list_all (\<lambda>tok. grammar_is php_grammar (tvalue tok) CModifiers) ms \<and>
    isVariableName (Some v)
      \<longrightarrow> getSymbols php_grammar m (ms @ [nameToken v, punctuation '';''])
            = \<lparr>s_name = v, kind = Some Variable, params = [],
               s_return = \<lparr>present = False, r_type = None\<rparr>\<rparr>)"
proof (intro conjI impI)
  assume "list_all (\<lambda>tok. grammar_is php_grammar (tvalue tok) CModifiers) ms \<and>
          isVariableName (Some v)"
  then have ms: "list_all (\<lambda>tok. grammar_is php_grammar (tvalue tok) CModifiers) ms"
    and v: "isVariableName (Some v)"
    by blast+
  have "parseTokens php_grammar (ms @ [nameToken v, punctuation '';''])
               (initFlags, initSymbols)
             = (initFlags, initSymbols\<lparr>s_name := v, kind := Some Variable\<rparr>)"
    by (rule trans [OF parseTokens_modifiers [OF ms] parseTokens_variable [OF v]])
  then show "getSymbols php_grammar m (ms @ [nameToken v, punctuation '';''])
            = \<lparr>s_name = v, kind = Some Variable, params = [],
               s_return = \<lparr>present = False, r_type = None\<rparr>\<rparr>"
    by (simp add: getSymbols_def finish_def initSymbols_def)
qed (auto simp: present_getSymbols)

theorem getSymbols_return_present_witness:
  "kind (getSymbols php_grammar False [keywordToken ''class'', nameToken ''Bar'', punctuation ''{''])
     = Some Class \<and>
   present (s_return (getSymbols php_grammar False
     [keywordToken ''class'', nameToken ''Bar'', punctuation ''{''])) \<and>
   list_all (\<lambda>tok. grammar_is php_grammar (tvalue tok) CModifiers) [nameToken ''public''] \<and>
   isVariableName (Some ''$foo'') \<and>
   getSymbols php_grammar False [nameToken ''public'', nameToken ''$foo'', punctuation '';'']
     = \<lparr>s_name = ''$foo'', kind = Some Variable, params = [],
        s_return = \<lparr>present = False, r_type = None\<rparr>\<rparr> \<and>
   kind (getSymbols php_grammar False [nameToken ''public'', nameToken ''$foo'', punctuation '';''])
     = Some Variable \<and>
   \<not> present (s_return (getSymbols php_grammar False
     [nameToken ''public'', nameToken ''$foo'', punctuation '';'']))"
proof -
  have c: "kind (getSymbols php_grammar False
             [keywordToken ''class'', nameToken ''Bar'', punctuation ''{'']) = Some Class"
    by code_simp
  have l: "list_all (\<lambda>tok. grammar_is php_grammar (tvalue tok) CModifiers) [nameToken ''public'']"
    by (simp add: grammar_is_def php_grammar_def nameToken_def)
  have n: "isVariableName (Some ''$foo'')"
    by (simp add: isVariableName_def)
  show ?thesis
    using c l n
      getSymbols_return_present [of php_grammar False
        "[keywordToken ''class'', nameToken ''Bar'', punctuation ''{'']"
        "[nameToken ''public'']" "''$foo''"]
      getSymbols_return_present [of php_grammar False
        "[nameToken ''public'', nameToken ''$foo'', punctuation '';'']"
        "[nameToken ''public'']" "''$foo''"]
    by simp
qed

section \<open>Typed parameters\<close>

lemma isType_not_variableName: "isType php_grammar v \<Longrightarrow> \<not> isVariableName (Some v)"
proof (cases v)
  case Nil
  then show ?thesis by (simp add: isVariableName_def)
next
  case (Cons c cs)
  assume t: "isType php_grammar v"
  show ?thesis
  proof
    assume "isVariableName (Some v)"
    with Cons have c: "c = CHR ''$''" by (simp add: isVariableName_def)
    have "\<not> classExpression v"
      by (simp add: Cons c classExpression_def classStart_def isLower_def isUpper_def)
    moreover have "v \<notin> set (grammar_types php_grammar)"
      by (auto simp: Cons c php_grammar_def)
    ultimately show False using t by (simp add: isType_def Let_def grammar_is_def)
  qed
qed

text \<open>
  Inside an open parameter list, a token that is a type appends a parameter with that
  type and an empty name and sets the flag \<open>expectParameterType\<close>.
\<close>

lemma parseParameters_type:
  assumes "kind s = Some Function" "expectParameter f" "tvalue tok = Some v" "v \<noteq> []"
    and "isType php_grammar v" "label tok \<noteq> ''(''" "label tok \<noteq> '')''"
  shows "parseParameters php_grammar tok (f, s)
           = (f\<lparr>expectParameterType := True\<rparr>, addParameter [] (Some v) s)"
proof -
  have nv: "\<not> isVariableName (Some v)" by (rule isType_not_variableName [OF assms(5)])
  have 1: "parseParameterName php_grammar tok (f, s) = (f, s)"
    by (simp add: parseParameterName_def Let_def assms(3) nv)
  have 2: "parseParameterType php_grammar tok (f, s)
             = (f\<lparr>expectParameterType := True\<rparr>, addParameter [] (Some v) s)"
    by (simp add: parseParameterType_def Let_def assms(2,3,4,5) nv truthy_def text_of_def)
  show ?thesis
    by (simp add: parseParameters_def Let_def assms(1,6,7) 1 2)
qed

text \<open>
  While the flag is set, a variable name becomes the name of the last parameter; the
  flag stays set.
\<close>

lemma parseParameters_name_after_type:
  assumes "kind s = Some Function" "expectParameter f" "expectParameterType f"
    and "tvalue tok = Some v" "isVariableName (Some v)"
    and "label tok \<noteq> ''(''" "label tok \<noteq> '')''"
  shows "parseParameters php_grammar tok (f, s) = (f, renameLastParameter v s)"
proof -
  have nt: "\<not> isType php_grammar v" using isType_not_variableName [of v] assms(5) by blast
  have 1: "parseParameterName php_grammar tok (f, s) = (f, s)"
    by (simp add: parseParameterName_def Let_def assms(3))
  have 2: "parseParameterType php_grammar tok (f, s) = (f, renameLastParameter v s)"
    by (simp add: parseParameterType_def Let_def assms(3,4,5) nt text_of_def)
  show ?thesis
    by (simp add: parseParameters_def Let_def assms(1,6,7) 1 2)
qed

lemma expectParameterType_parseToken:
  assumes "expectParameterType (fst st)"
  shows "expectParameterType (fst (parseToken g tok st))"
proof -
  have c: "\<And>st. expectParameterType (fst st) \<Longrightarrow> expectParameterType (fst (parseClass g tok st))"
    subgoal for st by (cases st) (simp add: parseClass_def) done
  have f: "\<And>st. expectParameterType (fst st) \<Longrightarrow> expectParameterType (fst (parseFunction g tok st))"
    subgoal for st by (cases st) (simp add: parseFunction_def) done
  have n: "\<And>st. expectParameterType (fst st) \<Longrightarrow> expectParameterType (fst (parseParameterName g tok st))"
    subgoal for st by (cases st) (simp add: parseParameterName_def Let_def) done
  have t: "\<And>st. expectParameterType (fst st) \<Longrightarrow> expectParameterType (fst (parseParameterType g tok st))"
    subgoal for st by (cases st) (simp add: parseParameterType_def Let_def) done
  have tn: "\<And>st. expectParameterType (fst st) \<Longrightarrow>
      expectParameterType (fst (parseParameterType g tok (parseParameterName g tok st)))"
    by (intro t n)
  have p: "\<And>st. expectParameterType (fst st) \<Longrightarrow> expectParameterType (fst (parseParameters g tok st))"
    subgoal for st by (cases st) (auto simp: parseParameters_def Let_def intro!: tn) done
  have v: "\<And>st. expectParameterType (fst st) \<Longrightarrow> expectParameterType (fst (parseVariable g tok st))"
    subgoal for st by (cases st) (simp add: parseVariable_def Let_def) done
  show ?thesis
    unfolding parseToken_def using assms by (intro v p f c)
qed

text \<open>No handler clears the flag: once set, it is set for the rest of the run.\<close>

lemma expectParameterType_parseTokens:
  "expectParameterType (fst st) \<Longrightarrow> expectParameterType (fst (parseTokens g toks st))"
  by (induction toks arbitrary: st) (simp_all add: expectParameterType_parseToken)

text \<open>
  Claim C1 says that the name after a type clears \<open>expectParameterType\<close>, so that a
  following untyped variable starts a new parameter. In the source the flag is never
  cleared: in \<^verbatim>\<open>function foo(int $a, $b) {\<close> the token \<^verbatim>\<open>$b\<close> renames the parameter
  of \<^verbatim>\<open>$a\<close>, and the record has the single parameter \<^verbatim>\<open>$b\<close> of type \<^verbatim>\<open>int\<close>.
\<close>

theorem untyped_after_typed_renames:
  "parseTokens php_grammar
     [nameToken ''int'', nameToken ''$a'', punctuation '','', nameToken ''$b''] openList
     = (\<lparr>expectName = False, expectParameter = True, expectParameterType = True,
          expectReturnType = False, done_flag = False\<rparr>,
        \<lparr>s_name = ''foo'', kind = Some Function,
          params = [\<lparr>p_name = ''$b'', p_val = [], p_type = Some ''int''\<rparr>],
          s_return = \<lparr>present = True, r_type = None\<rparr>\<rparr>) \<and>
   getSymbols php_grammar False
     [keywordToken ''function'', nameToken ''foo'', punctuation ''('', nameToken ''int'',
      nameToken ''$a'', punctuation '','', nameToken ''$b'', punctuation '')'',
      punctuation ''{'']
     = \<lparr>s_name = ''foo'', kind = Some Function,
        params = [\<lparr>p_name = ''$b'', p_val = [], p_type = Some ''int''\<rparr>],
        s_return = \<lparr>present = True, r_type = None\<rparr>\<rparr>"
proof
  show "parseTokens php_grammar
     [nameToken ''int'', nameToken ''$a'', punctuation '','', nameToken ''$b''] openList
     = (\<lparr>expectName = False, expectParameter = True, expectParameterType = True,
          expectReturnType = False, done_flag = False\<rparr>,
        \<lparr>s_name = ''foo'', kind = Some Function,
          params = [\<lparr>p_name = ''$b'', p_val = [], p_type = Some ''int''\<rparr>],
          s_return = \<lparr>present = True, r_type = None\<rparr>\<rparr>)"
    by code_simp
  show "getSymbols php_grammar False
     [keywordToken ''function'', nameToken ''foo'', punctuation ''('', nameToken ''int'',
      nameToken ''$a'', punctuation '','', nameToken ''$b'', punctuation '')'',
      punctuation ''{'']
     = \<lparr>s_name = ''foo'', kind = Some Function,
        params = [\<lparr>p_name = ''$b'', p_val = [], p_type = Some ''int''\<rparr>],
        s_return = \<lparr>present = True, r_type = None\<rparr>\<rparr>"
    by code_simp
qed

section \<open>Numbering of the placeholders\<close>

lemma indices_append: "indices (xs @ ys) = indices xs @ indices ys"
  by (simp add: indices_def)

lemma paramRow_indices:
  assumes "paramRow cfg all p c = Inr (row, c')"
  shows "c' = Suc (Suc c) \<and> indices [row] = [c, Suc c]"
  using assms
  by (auto simp: paramRow_def Let_def placeholder_def indices_def
        split: sum.splits option.splits)

lemma paramRows_indices:
  "paramRows cfg all ps (bl, c) = Inr (bl', c') \<Longrightarrow>
   \<exists>new. bl' = bl @ new \<and> indices new = [c..<c'] \<and> c \<le> c'"
proof (induction ps arbitrary: bl c)
  case Nil
  then show ?case by (simp add: indices_def)
next
  case (Cons p ps)
  from Cons.prems obtain row c1 where
    r: "paramRow cfg all p c = Inr (row, c1)"
    and rest: "paramRows cfg all ps (bl @ [row], c1) = Inr (bl', c')"
    by (auto split: sum.splits)
  from paramRow_indices [OF r] have c1: "c1 = Suc (Suc c)" and ir: "indices [row] = [c, Suc c]"
    by simp_all
  from Cons.IH [OF rest] obtain new where
    n: "bl' = (bl @ [row]) @ new" "indices new = [c1..<c']" "c1 \<le> c'"
    by blast
  have "[c..<c'] = [c, Suc c] @ [c1..<c']"
    using n(3) c1 by (simp add: upt_conv_Cons)
  moreover have "indices ([row] @ new) = indices [row] @ indices new"
    by (rule indices_append)
  ultimately have "indices ([row] @ new) = [c..<c']"
    using ir n(2) by (simp only:)
  moreover have "bl' = bl @ ([row] @ new)" using n(1) by simp
  moreover have "c \<le> c'" using n(3) c1 by simp
  ultimately show ?case by blast
qed

lemma renderParamTags_indices:
  assumes "renderParamTags cfg tokens (bl, c) = Inr (bl', c')"
  shows "\<exists>new. bl' = bl @ new \<and> indices new = [c..<c'] \<and> c \<le> c'"
proof (cases "params tokens \<noteq> [] \<and> kind tokens \<noteq> Some Variable")
  case True
  with assms have "paramRows cfg (params tokens) (params tokens) (bl @ [[]], c) = Inr (bl', c')"
    by (simp add: renderParamTags_def)
  from paramRows_indices [OF this] obtain new where
    n: "bl' = (bl @ [[]]) @ new" "indices new = [c..<c']" "c \<le> c'"
    by blast
  have "indices ([[]] @ new) = indices [[]] @ indices new"
    by (rule indices_append)
  moreover have "indices [[]] = []"
    by (simp add: indices_def)
  ultimately have "indices ([[]] @ new) = [c..<c']"
    using n(2) by (simp only: append_Nil)
  moreover have "bl' = bl @ ([[]] @ new)" using n(1) by simp
  ultimately show ?thesis using n(3) by blast
next
  case False
  with assms have "bl' = bl" "c' = c"
    by (auto simp: renderParamTags_def)
  then show ?thesis by (simp add: indices_def)
qed

lemma renderReturnTag_indices:
  assumes "renderReturnTag cfg tokens (bl, c) = (bl', c')"
  shows "\<exists>new. bl' = bl @ new \<and> indices new = [c..<c'] \<and> c \<le> c'"
  using assms
  by (auto simp: renderReturnTag_def Let_def placeholder_def indices_def split: if_splits)

lemma renderVarTag_indices:
  assumes "renderVarTag cfg tokens (bl, c) = (bl', c')"
  shows "\<exists>new. bl' = bl @ new \<and> indices new = [c..<c'] \<and> c \<le> c'"
  using assms
  by (auto simp: renderVarTag_def Let_def placeholder_def indices_def split: if_splits)

lemma upt_split: "a \<le> b \<Longrightarrow> b \<le> c \<Longrightarrow> [a..<b] @ [b..<c] = [a..<c]"
  by (metis le_Suc_ex upt_add_eq_append)

lemma renderLines_indices:
  assumes "renderLines cfg tokens = Inr (ls, c)"
  shows "indices ls = [1..<c] \<and>
         hd ls = [Ph 1 (''['' @ escape (s_name tokens) @ '' description]'')]"
proof -
  let ?d = "Ph 1 (''['' @ escape (s_name tokens) @ '' description]'')"
  from assms obtain bl1 c1 where
    p: "renderParamTags cfg tokens ([[?d]], 2) = Inr (bl1, c1)"
    and r: "renderVarTag cfg tokens (renderReturnTag cfg tokens (bl1, c1)) = (ls, c)"
    by (auto simp: renderLines_def Let_def placeholder_def numeral_2_eq_2 split: sum.splits)
  obtain bl2 c2 where r2: "renderReturnTag cfg tokens (bl1, c1) = (bl2, c2)"
    by (cases "renderReturnTag cfg tokens (bl1, c1)")
  with r have r3: "renderVarTag cfg tokens (bl2, c2) = (ls, c)" by simp
  from renderParamTags_indices [OF p] obtain n1 where
    n1: "bl1 = [[?d]] @ n1" "indices n1 = [2..<c1]" "2 \<le> c1" by blast
  from renderReturnTag_indices [OF r2] obtain n2 where
    n2: "bl2 = bl1 @ n2" "indices n2 = [c1..<c2]" "c1 \<le> c2" by blast
  from renderVarTag_indices [OF r3] obtain n3 where
    n3: "ls = bl2 @ n3" "indices n3 = [c2..<c]" "c2 \<le> c" by blast
  have ls: "ls = [[?d]] @ n1 @ n2 @ n3" using n1(1) n2(1) n3(1) by simp
  have d: "indices [[?d]] = [1..<2]"
    by (simp add: indices_def numeral_2_eq_2)
  have "indices ls = [1..<2] @ [2..<c1] @ [c1..<c2] @ [c2..<c]"
    unfolding ls indices_append n1(2) n2(2) n3(2) d by (rule refl)
  also have "\<dots> = [1..<c]"
    using n1(3) n2(3) n3(3) by (simp add: upt_split)
  finally show ?thesis using ls by simp
qed

text \<open>
  Claim C5: the renderer is a function of the configuration, the comment delimiters and
  the record, with a counter of its own that starts at 1 in each call: any two calls on
  the same input have the same outcome, and whenever a comment is returned its first
  line is the description placeholder with the number 1 and the placeholders of the
  block carry the numbers 1, 2, 3, ... in the order of emission.
\<close>

theorem renderBlock_numbering:
  "(\<forall>r r'. renderBlock cfg st tokens = r \<and> renderBlock cfg st tokens = r' \<longrightarrow> r = r') \<and>
   (\<forall>out. renderBlock cfg st tokens = Inr out \<longrightarrow>
      (\<exists>ls c. renderLines cfg tokens = Inr (ls, c) \<and> out = wrap st ls \<and>
               indices ls = [1..<c] \<and>
               hd ls = [Ph 1 (''['' @ escape (s_name tokens) @ '' description]'')]))"
proof (intro conjI allI impI)
  fix r r'
  assume "renderBlock cfg st tokens = r \<and> renderBlock cfg st tokens = r'"
  then show "r = r'" by (elim conjE) (rule trans [OF sym])
next
  fix out
  assume "renderBlock cfg st tokens = Inr out"
  then obtain ls c where l: "renderLines cfg tokens = Inr (ls, c)" and o: "out = wrap st ls"
    by (auto simp: renderBlock_def split: sum.splits)
  from renderLines_indices [OF l] l o
  show "\<exists>ls c. renderLines cfg tokens = Inr (ls, c) \<and> out = wrap st ls \<and>
                  indices ls = [1..<c] \<and>
                  hd ls = [Ph 1 (''['' @ escape (s_name tokens) @ '' description]'')]"
    by blast
qed

lemma renderLines_twoArguments:
  "renderLines defaultConfig twoArguments =
     Inr ([[Ph 1 ''[foo description]''],
           [],
           [Txt ''@param'', Txt ''  '', Txt '' '', Ph 2 ''[type]'', Txt ''   '',
            Txt ([CHR 0x5C] @ ''$arg1''), Txt ''  '',
            Ph 3 (''['' @ [CHR 0x5C] @ ''$arg1 description]'')],
           [Txt ''@param'', Txt ''  '', Txt '' '', Ph 4 ''[type]'', Txt ''   '',
            Txt ([CHR 0x5C] @ ''$arg2''), Txt ''  '',
            Ph 5 (''['' @ [CHR 0x5C] @ ''$arg2 description]'')],
           [],
           [Txt ''@return'', Txt ''  '', Ph 6 ''[type]'']], 7)"
  by code_simp

theorem renderBlock_numbering_witness:
  "renderBlock defaultConfig defaultSettings twoArguments
     = Inr (wrap defaultSettings (fst (projr (renderLines defaultConfig twoArguments)))) \<and>
   (\<exists>ls c. renderLines defaultConfig twoArguments = Inr (ls, c) \<and>
            indices ls = [1..<c] \<and> hd ls = [Ph 1 ''[foo description]''])"
proof -
  have r: "renderBlock defaultConfig defaultSettings twoArguments
     = Inr (wrap defaultSettings (fst (projr (renderLines defaultConfig twoArguments))))"
    by (simp add: renderBlock_def renderLines_twoArguments)
  have n: "escape (s_name twoArguments) = ''foo''"
    by (simp add: twoArguments_def)
  from renderBlock_numbering [of defaultConfig defaultSettings twoArguments] r
  show ?thesis
    using n by auto
qed

text \<open>
  The comment of \<^verbatim>\<open>function foo($arg1, $arg2) {\<close> with the default configuration,
  character by character (0x0A is the line feed, 0x5C the backslash).
\<close>

lemma renderBlock_twoArguments:
  "renderBlock defaultConfig defaultSettings twoArguments =
     Inr (''/**'' @ [CHR 0x0A] @
          '' * ${1:[foo description]}'' @ [CHR 0x0A] @
          '' * '' @ [CHR 0x0A] @
          '' * @param   ${2:[type]}   '' @ [CHR 0x5C] @ ''$arg1  ${3:['' @ [CHR 0x5C] @
            ''$arg1 description]}'' @ [CHR 0x0A] @
          '' * @param   ${4:[type]}   '' @ [CHR 0x5C] @ ''$arg2  ${5:['' @ [CHR 0x5C] @
            ''$arg2 description]}'' @ [CHR 0x0A] @
          '' * '' @ [CHR 0x0A] @
          '' * @return  ${6:[type]}'' @ [CHR 0x0A] @
          '' */'')"
  by code_simp

section \<open>Column widths of uniform parameter lists\<close>

text \<open>
  When every parameter has a type, or none has, the rows are rendered, and the widths
  the loop computes pad every name to the longest name and every type to the longest
  type, plus the configured column spacing (an absent type is shown as \<^verbatim>\<open>[type]\<close>
  with one more space).
\<close>

lemma foldl_max_Max: "foldl max (n::nat) ms = Max (set (n # ms))"
proof -
  have "(\<lambda>x s. max s x) = (max :: nat \<Rightarrow> nat \<Rightarrow> nat)"
    by (intro ext) (rule max.commute)
  then have "foldl max n ms = fold max ms n"
    by (simp add: foldl_conv_fold)
  also have "\<dots> = Max (set (n # ms))"
    by (rule Max.set_eq_fold [symmetric])
  finally show ?thesis .
qed

lemma maxProp_name_Max:
  assumes "all \<noteq> []"
  shows "maxProp (\<lambda>q. Some (p_name q)) all = Inr (Max (set (map (\<lambda>q. length (p_name q)) all)))"
proof -
  from assms obtain a as where a: "all = a # as" by (cases all) auto
  show ?thesis
    unfolding maxProp_name [OF assms] foldl_max_Max by (simp add: a)
qed

lemma lengths_typed:
  "\<forall>q\<in>set ps. p_type q \<noteq> None \<Longrightarrow>
   lengths (map p_type ps) = Inr (map (\<lambda>q. length (text_of (p_type q))) ps)"
  by (induction ps) (auto simp: text_of_def)

lemma maxProp_type_Max:
  assumes "all \<noteq> []" "\<forall>q\<in>set all. p_type q \<noteq> None"
  shows "maxProp p_type all = Inr (Max (set (map (\<lambda>q. length (text_of (p_type q))) all)))"
proof -
  from assms(1) obtain a as where a: "all = a # as" by (cases all) auto
  have "maxProp p_type all = reduceMax (map (\<lambda>q. length (text_of (p_type q))) all)"
    unfolding maxProp_def lengths_typed [OF assms(2)] by simp
  also have "\<dots> = Inr (foldl max (length (text_of (p_type a)))
                 (map (\<lambda>q. length (text_of (p_type q))) as))"
    by (simp add: reduceMax_def a)
  finally show ?thesis
    unfolding foldl_max_Max by (simp add: a)
qed

lemma paramRow_name_width:
  assumes "p \<in> set all" "paramRow cfg all p c = Inr (row, c')"
  shows "\<exists>ty tSpace desc.
           row = [Txt ''@param'', Txt (columns cfg), Txt '' '', ty, Txt tSpace,
                  Txt (escape (p_name p)),
                  Txt (spaces (columnSpacing cfg
                         + (Max (set (map (\<lambda>q. length (p_name q)) all)) - length (p_name p)))),
                  desc] \<and>
           length (p_name p)
             + (columnSpacing cfg
                  + (Max (set (map (\<lambda>q. length (p_name q)) all)) - length (p_name p)))
             = columnSpacing cfg + Max (set (map (\<lambda>q. length (p_name q)) all))"
proof -
  from assms(1) have ne: "all \<noteq> []" by auto
  have "length (p_name p) \<le> Max (set (map (\<lambda>q. length (p_name q)) all))"
    using assms(1) by (intro Max_ge) auto
  then show ?thesis
    using assms(2)
    by (auto simp: paramRow_def Let_def maxProp_name_Max [OF ne] placeholder_def
          split: sum.splits option.splits)
qed

lemma paramRow_typed_width:
  assumes "p \<in> set all" "\<forall>q\<in>set all. p_type q \<noteq> None"
  shows "\<exists>nm pSpace desc.
           paramRow cfg all p c =
             Inr ([Txt ''@param'', Txt (columns cfg), Txt '' '',
                   Ph c (escape (text_of (p_type p))),
                   Txt (spaces (columnSpacing cfg
                          + (Max (set (map (\<lambda>q. length (text_of (p_type q))) all))
                             - length (text_of (p_type p))))),
                   nm, pSpace, desc],
                  Suc (Suc c)) \<and>
           length (text_of (p_type p))
             + (columnSpacing cfg
                  + (Max (set (map (\<lambda>q. length (text_of (p_type q))) all))
                     - length (text_of (p_type p))))
             = columnSpacing cfg + Max (set (map (\<lambda>q. length (text_of (p_type q))) all))"
proof -
  from assms(1) have ne: "all \<noteq> []" by auto
  from assms obtain t where t: "p_type p = Some t" by auto
  have le: "length (text_of (p_type p))
              \<le> Max (set (map (\<lambda>q. length (text_of (p_type q))) all))"
    using assms(1) by (intro Max_ge) auto
  have "paramRow cfg all p c =
             Inr ([Txt ''@param'', Txt (columns cfg), Txt '' '',
                   Ph c (escape (text_of (p_type p))),
                   Txt (spaces (columnSpacing cfg
                          + (Max (set (map (\<lambda>q. length (text_of (p_type q))) all))
                             - length (text_of (p_type p))))),
                   Txt (escape (p_name p)),
                   Txt (spaces (columnSpacing cfg
                          + (Max (set (map (\<lambda>q. length (p_name q)) all)) - length (p_name p)))),
                   Ph (Suc c) (''['' @ escape (p_name p) @ '' description]'')],
                  Suc (Suc c))"
    by (simp add: paramRow_def Let_def maxProp_name_Max [OF ne]
          maxProp_type_Max [OF ne assms(2)] placeholder_def t text_of_def)
  with le show ?thesis by simp
qed

lemma paramRow_untyped_width:
  assumes "all \<noteq> []" "p_type p = None"
  shows "\<exists>nm pSpace desc.
           paramRow cfg all p c =
             Inr ([Txt ''@param'', Txt (columns cfg), Txt '' '',
                   Ph c ''[type]'', Txt (spaces (columnSpacing cfg + 1)), nm, pSpace, desc],
                  Suc (Suc c))"
  by (simp add: paramRow_def Let_def maxProp_name_Max [OF assms(1)] placeholder_def assms(2))

end
